theory Spec2Isabelle
  imports Main "HOL-Library.Word"
begin

unbundle bit_operations_syntax

section \<open>Bytes, errors and the big-endian helpers of encoding/binary\<close>

type_synonym byte = "8 word"
type_synonym uint16 = "16 word"
type_synonym int64 = "64 word"

text \<open>
  Every error value and run-time panic the modelled functions can produce. A Go
  \<open>error\<close> result is an \<open>error option\<close> (\<open>None\<close> is \<open>nil\<close>); a function of the
  frame codec that can panic returns \<open>error + 'a\<close> with the panic on the left.
\<close>

datatype error =
    ErrDialReqInvalidSrcPK
  | ErrDialReqInvalidDstPK
  | ErrDialReqInvalidSrcPort
  | ErrDialReqInvalidDstPort
  | ErrDialReqInvalidTimestamp
  | ErrDialReqInvalidSig
  | ErrorsNew string
  | EOF
  | ErrUnexpectedEOF
  | WriteError error
  | PanicIndexOutOfRange

text \<open>\<open>binary.BigEndian.PutUint16(b, v)\<close>: \<open>b[0] = byte(v >> 8); b[1] = byte(v)\<close>.
  Every call in the source passes a slice of length 2 or more.\<close>

definition PutUint16 :: "byte list \<Rightarrow> uint16 \<Rightarrow> byte list" where
  "PutUint16 b v = (b[0 := ucast (drop_bit 8 v)])[1 := ucast v]"

text \<open>\<open>binary.BigEndian.Uint16(b)\<close>: \<open>uint16(b[1]) | uint16(b[0])<<8\<close>, which panics
  on a slice shorter than 2.\<close>

definition be16 :: "byte \<Rightarrow> byte \<Rightarrow> uint16" where
  "be16 b0 b1 = (ucast b1) OR (push_bit 8 (ucast b0))"

definition Uint16 :: "byte list \<Rightarrow> error + uint16" where
  "Uint16 b = (if length b < 2 then Inl PanicIndexOutOfRange else Inr (be16 (b ! 0) (b ! 1)))"

text \<open>The built-in \<open>copy(dst, src)\<close>: the first \<open>min (len dst) (len src)\<close> elements of
  \<open>dst\<close> are overwritten.\<close>

definition copy :: "'a list \<Rightarrow> 'a list \<Rightarrow> 'a list" where
  "copy dst src =
     (let n = min (length dst) (length src) in take n src @ drop n dst)"

section \<open>Frames\<close>

type_synonym FrameType = byte
type_synonym Frame = "byte list"

definition headerLen :: nat where
  "headerLen = 5"

definition OkType :: FrameType where "OkType = 0x0"
definition RequestType :: FrameType where "RequestType = 0x1"
definition AcceptType :: FrameType where "AcceptType = 0x2"
definition CloseType :: FrameType where "CloseType = 0x3"
definition FwdType :: FrameType where "FwdType = 0xa"
definition AckType :: FrameType where "AckType = 0xb"

text \<open>
  \<open>MakeFrame\<close> allocates \<open>headerLen + len(pay)\<close> zero bytes and fills them in place.
  A write through the sub-slice \<open>f[i:j]\<close> is a write to those positions of \<open>f\<close>;
  \<open>uint16(len(pay))\<close> keeps the low 16 bits of the length.
\<close>

definition MakeFrame :: "FrameType \<Rightarrow> uint16 \<Rightarrow> byte list \<Rightarrow> Frame" where
  "MakeFrame ft chID pay =
     (let f = replicate (headerLen + length pay) (0 :: byte);
          f = f[0 := ft];
          f = take 1 f @ PutUint16 (take 2 (drop 1 f)) chID @ drop 3 f;
          f = take 3 f @ PutUint16 (take 2 (drop 3 f)) (of_nat (length pay)) @ drop 5 f;
          f = take 5 f @ copy (drop 5 f) pay
      in f)"

text \<open>The accessors index the frame, so each panics on a frame that is too short
  (a frame is taken with its length equal to its capacity).\<close>

definition Type :: "Frame \<Rightarrow> error + FrameType" where
  "Type f = (if length f < 1 then Inl PanicIndexOutOfRange else Inr (f ! 0))"

definition TpID :: "Frame \<Rightarrow> error + uint16" where
  "TpID f = (if length f < 3 then Inl PanicIndexOutOfRange else Uint16 (take 2 (drop 1 f)))"

definition PayLen :: "Frame \<Rightarrow> error + nat" where
  "PayLen f =
     (if length f < 5 then Inl PanicIndexOutOfRange
      else case Uint16 (take 2 (drop 3 f)) of Inl e \<Rightarrow> Inl e | Inr n \<Rightarrow> Inr (unat n))"

definition Pay :: "Frame \<Rightarrow> error + byte list" where
  "Pay f = (if length f < headerLen then Inl PanicIndexOutOfRange else Inr (drop headerLen f))"

definition Disassemble :: "Frame \<Rightarrow> error + (FrameType \<times> uint16 \<times> byte list)" where
  "Disassemble f =
     (case Type f of Inl e \<Rightarrow> Inl e | Inr ft \<Rightarrow>
       (case TpID f of Inl e \<Rightarrow> Inl e | Inr tid \<Rightarrow>
         (case Pay f of Inl e \<Rightarrow> Inl e | Inr p \<Rightarrow> Inr (ft, tid, p))))"

record disassembledFrame =
  df_Type :: FrameType
  df_TpID :: uint16
  df_Pay :: "byte list"

text \<open>
  A reader is the list of bytes it still holds. \<open>io.ReadFull(r, buf)\<close> fills \<open>buf\<close>
  from it: with too few bytes left it copies what there is and fails with \<open>EOF\<close>
  (nothing read) or \<open>ErrUnexpectedEOF\<close>. The result is the buffer, the error and the
  reader afterwards.
\<close>

definition ReadFull :: "byte list \<Rightarrow> byte list \<Rightarrow> byte list \<times> error option \<times> byte list" where
  "ReadFull r buf =
     (let n = min (length buf) (length r)
      in (take n r @ drop n buf,
          if n = length buf then None else if n = 0 then Some EOF else Some ErrUnexpectedEOF,
          drop n r))"

text \<open>\<open>readFrame\<close> returns the frame read so far, the disassembled frame (its zero
  value on an error), the error, and the reader afterwards.\<close>

definition zero_df :: disassembledFrame where
  "zero_df = \<lparr>df_Type = 0, df_TpID = 0, df_Pay = []\<rparr>"

definition readFrame ::
  "byte list \<Rightarrow> (error + (Frame \<times> disassembledFrame \<times> error option)) \<times> byte list" where
  "readFrame r =
     (let f = replicate headerLen (0 :: byte);
          (f, err, r) = ReadFull r f
      in if err \<noteq> None then (Inr (f, zero_df, err), r)
         else (case PayLen f of Inl e \<Rightarrow> (Inl e, r) | Inr n \<Rightarrow>
           (let f = f @ replicate n (0 :: byte);
                (p, err, r) = ReadFull r (drop headerLen f);
                f = take headerLen f @ p
            in if err \<noteq> None then (Inr (f, zero_df, err), r)
               else (case Disassemble f of Inl e \<Rightarrow> (Inl e, r)
                 | Inr (t, tid, p) \<Rightarrow>
                     (Inr (f, \<lparr>df_Type = t, df_TpID = tid, df_Pay = p\<rparr>, None), r)))))"

subsection \<open>Writing frames\<close>

text \<open>
  An \<open>io.Writer\<close> is modelled by the bytes it has accepted and, for a writer that is
  broken, the error every \<open>Write\<close> returns.
\<close>

record Writer =
  written :: "byte list"
  failure :: "error option"

definition Write :: "Writer \<Rightarrow> byte list \<Rightarrow> Writer \<times> error option" where
  "Write w p =
     (case failure w of
        Some e \<Rightarrow> (w, Some e)
      | None \<Rightarrow> (w\<lparr>written := written w @ p\<rparr>, None))"

definition writeFrame :: "Writer \<Rightarrow> Frame \<Rightarrow> Writer \<times> error option" where
  "writeFrame w f =
     (let (w, err) = Write w f
      in case err of Some e \<Rightarrow> (w, Some (WriteError e)) | None \<Rightarrow> (w, None))"

definition writeAckFrame :: "Writer \<Rightarrow> uint16 \<Rightarrow> uint16 \<Rightarrow> Writer \<times> error option" where
  "writeAckFrame w tid offset =
     (let p = replicate 2 (0 :: byte);
          p = PutUint16 p offset
      in writeFrame w (MakeFrame AckType tid p))"

text \<open>\<open>disassembleAckPayload\<close> returns the offset and the error; the left injection is
  the panic of \<open>Uint16\<close>, which the length check excludes.\<close>

definition disassembleAckPayload :: "byte list \<Rightarrow> error + (uint16 \<times> error option)" where
  "disassembleAckPayload p =
     (if length p \<noteq> 2 then Inr (0, Some (ErrorsNew ''invalid ACK payload size''))
      else (case Uint16 p of Inl e \<Rightarrow> Inl e | Inr offset \<Rightarrow> Inr (offset, None)))"

subsection \<open>Names of frame types\<close>

text \<open>A keyed slice literal \<open>[]string{i: s, ...}\<close>: its length is the largest key plus
  one, and positions without a key hold the empty string.\<close>

definition keyed_literal :: "(nat \<times> string) list \<Rightarrow> string list" where
  "keyed_literal kvs =
     foldl (\<lambda>xs (i, s). xs[i := s]) (replicate (Suc (foldr max (map fst kvs) 0)) []) kvs"

definition names :: "string list" where
  "names = keyed_literal
     [(unat RequestType, ''REQUEST''),
      (unat AcceptType, ''ACCEPT''),
      (unat CloseType, ''CLOSE''),
      (unat FwdType, ''FWD''),
      (unat AckType, ''ACK''),
      (unat OkType, ''OK'')]"

text \<open>The verb \<open>%d\<close> of \<open>fmt.Sprintf\<close> on an unsigned value: its decimal digits.\<close>

fun decimal :: "nat \<Rightarrow> string" where
  "decimal n =
     (if n < 10 then [char_of (48 + n)]
      else decimal (n div 10) @ [char_of (48 + n mod 10)])"

declare decimal.simps [simp del]

definition String :: "FrameType \<Rightarrow> string" where
  "String ft =
     (if unat ft \<ge> length names then ''UNKNOWN:'' @ decimal (unat ft)
      else names ! unat ft)"

section \<open>Stream identifiers\<close>

definition isInitiatorID :: "uint16 \<Rightarrow> bool" where
  "isInitiatorID tpID = (tpID mod 2 = 0)"

text \<open>
  \<open>randID\<close> loops until a draw has the wanted parity. The random source is the list of
  bytes \<open>cipher.RandByte\<close> will hand out, two per draw; \<open>None\<close> means that the loop is
  still running when these bytes are used up. The result is the id and the bytes left.
\<close>

fun randID :: "bool \<Rightarrow> byte list \<Rightarrow> (uint16 \<times> byte list) option" where
  "randID initiator (b0 # b1 # rnd) =
     (let tid = be16 b0 b1
      in if initiator \<and> tid mod 2 = 0 \<or> \<not> initiator \<and> tid mod 2 \<noteq> 0 then Some (tid, rnd)
         else randID initiator rnd)"
| "randID initiator rnd = None"

section \<open>Dial requests\<close>

text \<open>
  Keys, signatures and hashes are byte strings of the \<open>cipher\<close> package, which is not
  part of the sources; what the requests use of it is taken as a parameter: the null
  check of a public key, the zero signature \<open>cipher.Sig{}\<close>, the hash function and
  the signature check (\<open>None\<close> when the signature verifies).
\<close>

type_synonym PubKey = "byte list"
type_synonym Sig = "byte list"
type_synonym SHA256 = "byte list"

record cipher =
  Null :: "PubKey \<Rightarrow> bool"
  zero_Sig :: Sig
  SumSHA256 :: "byte list \<Rightarrow> SHA256"
  VerifyPubKeySignedPayload :: "PubKey \<Rightarrow> Sig \<Rightarrow> byte list \<Rightarrow> error option"

record SessionDialRequest =
  Timestamp :: int64
  SrcPK :: PubKey
  DstPK :: PubKey
  Sig :: Sig

record Addr =
  PK :: PubKey
  Port :: uint16

record StreamDialRequest =
  sd_Timestamp :: int64
  sd_SrcAddr :: Addr
  sd_DstAddr :: Addr
  sd_NoiseMsg :: "byte list"
  sd_Sig :: Sig

text \<open>\<open>encodeGob\<close>, the serialisation that is signed and hashed, is not part of the
  sources either and is a parameter of each function that calls it.\<close>

definition Hash :: "cipher \<Rightarrow> (SessionDialRequest \<Rightarrow> byte list) \<Rightarrow> SessionDialRequest \<Rightarrow> SHA256" where
  "Hash c encodeGob dr =
     (let dr = dr\<lparr>Sig := zero_Sig c\<rparr>
      in SumSHA256 c (encodeGob dr))"

text \<open>Timestamps are signed 64-bit integers, compared as such.\<close>

definition Verify ::
  "cipher \<Rightarrow> (SessionDialRequest \<Rightarrow> byte list) \<Rightarrow> SessionDialRequest \<Rightarrow> int64 \<Rightarrow> error option" where
  "Verify c encodeGob dr lastTimestamp =
     (if Null c (SrcPK dr) then Some ErrDialReqInvalidSrcPK
      else if Null c (DstPK dr) then Some ErrDialReqInvalidDstPK
      else if sint (Timestamp dr) \<le> sint lastTimestamp then Some ErrDialReqInvalidTimestamp
      else
        (let sig = Sig dr;
             dr = dr\<lparr>Sig := zero_Sig c\<rparr>
         in if VerifyPubKeySignedPayload c (SrcPK dr) sig (encodeGob dr) \<noteq> None
            then Some ErrDialReqInvalidSig
            else None))"

definition sd_Hash :: "cipher \<Rightarrow> (StreamDialRequest \<Rightarrow> byte list) \<Rightarrow> StreamDialRequest \<Rightarrow> SHA256" where
  "sd_Hash c encodeGob dr =
     (let dr = dr\<lparr>sd_Sig := zero_Sig c\<rparr>
      in SumSHA256 c (encodeGob dr))"

subsection \<open>A concrete cipher\<close>

text \<open>A toy cipher and toy encodings, for evaluating the functions on concrete
  requests: the null key is the empty one, a signature verifies when it is the key
  followed by the message, and the hash keeps the first four bytes.\<close>

definition toy_cipher :: cipher where
  "toy_cipher = \<lparr>Null = (\<lambda>pk. pk = []), zero_Sig = [],
     SumSHA256 = (\<lambda>b. take 4 b),
     VerifyPubKeySignedPayload =
       (\<lambda>pk sig msg. if sig = pk @ msg then None else Some (ErrorsNew ''bad signature''))\<rparr>"

definition toy_gob :: "SessionDialRequest \<Rightarrow> byte list" where
  "toy_gob dr = ucast (Timestamp dr) # SrcPK dr @ DstPK dr @ Sig dr"

definition toy_sd_gob :: "StreamDialRequest \<Rightarrow> byte list" where
  "toy_sd_gob dr = ucast (sd_Timestamp dr) # PK (sd_SrcAddr dr) @ PK (sd_DstAddr dr) @ sd_NoiseMsg dr @ sd_Sig dr"

section \<open>The port manager\<close>

definition firstEphemeralPort :: nat where
  "firstEphemeralPort = 49152"

definition lastEphemeralPort :: nat where
  "lastEphemeralPort = 65535"

text \<open>
  The generator of \<open>math/rand\<close> is the list of raw values it will produce; \<open>Intn n\<close>
  reduces the next one modulo \<open>n\<close>, so its result lies in \<open>[0, n)\<close>. \<open>None\<close> stands for
  a generator whose listed values are used up.
\<close>

record 'l PortManager =
  rand :: "nat list"
  listeners :: "uint16 \<rightharpoonup> 'l"

definition Intn :: "nat \<Rightarrow> nat list \<Rightarrow> (nat \<times> nat list) option" where
  "Intn n rnd = (case rnd of [] \<Rightarrow> None | v # rnd' \<Rightarrow> Some (v mod n, rnd'))"

definition Listener :: "'l PortManager \<Rightarrow> uint16 \<Rightarrow> 'l option" where
  "Listener pm port = listeners pm port"

definition AddListener :: "'l PortManager \<Rightarrow> 'l \<Rightarrow> uint16 \<Rightarrow> 'l PortManager" where
  "AddListener pm l port = pm\<lparr>listeners := (listeners pm)(port \<mapsto> l)\<rparr>"

definition randomEphemeralPort :: "'l PortManager \<Rightarrow> (uint16 \<times> 'l PortManager) option" where
  "randomEphemeralPort pm =
     (case Intn (lastEphemeralPort - firstEphemeralPort) (rand pm) of
        None \<Rightarrow> None
      | Some (r, rnd') \<Rightarrow> Some (of_nat (firstEphemeralPort + r), pm\<lparr>rand := rnd'\<rparr>))"

text \<open>The loop of \<open>NextEmptyEphemeralPort\<close> draws until the port has no listener;
  \<open>None\<close> means that it is still drawing when the generator's values are used up.\<close>

function NextEmptyEphemeralPort :: "'l PortManager \<Rightarrow> (uint16 \<times> 'l PortManager) option" where
  "NextEmptyEphemeralPort pm =
     (case randomEphemeralPort pm of
        None \<Rightarrow> None
      | Some (port, pm') \<Rightarrow>
          (if Listener pm' port = None then Some (port, pm')
           else NextEmptyEphemeralPort pm'))"
  by pat_completeness auto
termination
  by (relation "measure (\<lambda>pm. length (rand pm))")
     (auto simp: randomEphemeralPort_def Intn_def split: list.splits)

section \<open>The transport manager\<close>

text \<open>
  The manager works on objects that the sources only refer to: managed transports,
  transports, factories, the discovery client, the log store and the logger. A
  pointer to a managed transport is an address (\<open>None\<close> is the nil pointer); transports
  and factories are references as well.
\<close>

type_synonym UUID = "128 word"
type_synonym mtref = nat
type_synonym Transport = nat
type_synonym Factory = nat

text \<open>The fields of \<open>ManagedTransport\<close> and of \<open>Entry\<close> that the manager reads or
  writes; the counters of the log entry are unbounded integers.\<close>

record ManagedTransport =
  mt_ID :: UUID
  mt_Public :: bool
  mt_Transport :: Transport
  ReceivedBytes :: int
  SentBytes :: int

record Entry =
  entry_ID :: UUID
  entry_Edges :: "PubKey \<times> PubKey"
  entry_Type :: string
  entry_Public :: bool

text \<open>
  Every call that leaves the manager's own code is recorded, in order. Log calls keep
  their format string.
\<close>

datatype call =
    ManagedTransport_Close "mtref option"
  | ManagedTransport_isClosing mtref
  | ManagedTransport_updateTransport mtref Transport
  | DiscoveryClient_UpdateStatuses UUID bool
  | Factory_Dial Factory PubKey
  | settlementInitiatorHandshake_Do bool Transport
  | Transport_Close Transport
  | LogStore_Record UUID int int
  | Logger_Infof string
  | Logger_Warnf string

text \<open>A call on a nil pointer may panic instead of returning.\<close>

datatype 'a outcome = Panics | Returns 'a

text \<open>
  What the collaborators answer is a parameter: each answer is a function of the calls
  made so far and of the arguments. A Go result \<open>(x, err)\<close> is a sum with the error on
  the left.
\<close>

record env =
  Close_result :: "call list \<Rightarrow> mtref option \<Rightarrow> error option outcome"
  isClosing_result :: "call list \<Rightarrow> mtref \<Rightarrow> bool"
  UpdateStatuses_result :: "call list \<Rightarrow> UUID \<Rightarrow> bool \<Rightarrow> error option"
  Dial_result :: "call list \<Rightarrow> Factory \<Rightarrow> PubKey \<Rightarrow> error + Transport"
  Do_result :: "call list \<Rightarrow> bool \<Rightarrow> Transport \<Rightarrow> error + Entry"
  Record_result :: "call list \<Rightarrow> UUID \<Rightarrow> error option"

text \<open>
  The state: the manager's \<open>transports\<close> map, whether its \<open>doneChan\<close> is closed, its
  counter \<open>mgrQty\<close>, the managed transports by address, and the calls made so far. The
  mutex is left out: the functions are run one at a time.
\<close>

record state =
  transports :: "UUID \<rightharpoonup> mtref"
  doneChan_closed :: bool
  mgrQty :: "32 word"
  objs :: "mtref \<Rightarrow> ManagedTransport"
  calls :: "call list"

definition call :: "call \<Rightarrow> state \<Rightarrow> state" where
  "call c s = s\<lparr>calls := calls s @ [c]\<rparr>"

definition isClosing :: "state \<Rightarrow> bool" where
  "isClosing s = doneChan_closed s"

definition DeleteTransport :: "env \<Rightarrow> UUID \<Rightarrow> state \<Rightarrow> error option outcome \<times> state" where
  "DeleteTransport env uid s =
     (let tr = transports s uid;
          s = s\<lparr>transports := (transports s)(uid := None)\<rparr>;
          r = Close_result env (calls s) tr;
          s = call (ManagedTransport_Close tr) s
      in case r of
           Panics \<Rightarrow> (Panics, s)
         | Returns _ \<Rightarrow>
            (let err = UpdateStatuses_result env (calls s) uid False;
                 s = call (DiscoveryClient_UpdateStatuses uid False) s;
                 s = (if err \<noteq> None
                      then call (Logger_Warnf ''Failed to change transport status: %s'') s
                      else s);
                 s = call (Logger_Infof ''Unregistered transport %s'') s
             in if tr \<noteq> None
                then (let r = Close_result env (calls s) tr;
                          s = call (ManagedTransport_Close tr) s
                      in (r, s))
                else (Returns None, s)))"

definition dialTransport ::
  "env \<Rightarrow> Factory \<Rightarrow> PubKey \<Rightarrow> bool \<Rightarrow> state \<Rightarrow> (error + Transport \<times> Entry) \<times> state" where
  "dialTransport env factory remote public s =
     (if isClosing s
      then (Inl (ErrorsNew ''transport.Manager is closing. Skipping dialling transport''), s)
      else
        (let r = Dial_result env (calls s) factory remote;
             s = call (Factory_Dial factory remote) s
         in case r of
              Inl err \<Rightarrow> (Inl err, s)
            | Inr tr \<Rightarrow>
               (let h = Do_result env (calls s) public tr;
                    s = call (settlementInitiatorHandshake_Do public tr) s
                in case h of
                     Inl err \<Rightarrow> (Inl err, call (Transport_Close tr) s)
                   | Inr entry \<Rightarrow> (Inr (tr, entry), s))))"

text \<open>
  Modelled from the spec: \<open>ManagedTransport.updateTransport\<close> is not part of the
  sources. The spec's words are that the worker, on a successful re-dial, swaps the
  underlying transport into the same managed wrapper, preserving its ID.
\<close>

definition updateTransport :: "mtref \<Rightarrow> Transport \<Rightarrow> state \<Rightarrow> state" where
  "updateTransport mTr tr s =
     (let s = call (ManagedTransport_updateTransport mTr tr) s
      in s\<lparr>objs := (objs s)(mTr := (objs s mTr)\<lparr>mt_Transport := tr\<rparr>)\<rparr>)"

text \<open>
  The worker \<open>manageTransport\<close> waits on four channels of the managed transport. What
  it receives, in the order in which \<open>select\<close> delivers it, is the input: one event per
  iteration of the loop.
\<close>

datatype chan_event =
    doneChan
  | errChan error
  | readLogChan int
  | writeLogChan int

text \<open>One iteration of the loop on a received event. The result says whether the
  worker has returned (\<open>True\<close>) or goes on to the next \<open>select\<close>.\<close>

definition manageTransport_select ::
  "env \<Rightarrow> mtref \<Rightarrow> Factory \<Rightarrow> PubKey \<Rightarrow> bool \<Rightarrow> bool \<Rightarrow> chan_event \<Rightarrow> state
     \<Rightarrow> bool outcome \<times> state" where
  "manageTransport_select env mTr factory remote public accepted ev s =
     (case ev of
        doneChan \<Rightarrow>
          (let s = s\<lparr>mgrQty := mgrQty s - 1\<rparr>;
               s = call (Logger_Infof ''manageTransport exit for %v. mgrQty: %v'') s
           in (Returns True, s))
      | errChan err \<Rightarrow>
          (let closing = isClosing_result env (calls s) mTr;
               s = call (ManagedTransport_isClosing mTr) s
           in if \<not> closing then
                (let s = call (Logger_Infof ''Transport %s failed with error: %s. Re-dialing...'') s
                 in if accepted then
                      (case DeleteTransport env (mt_ID (objs s mTr)) s of
                         (Panics, s) \<Rightarrow> (Panics, s)
                       | (Returns err, s) \<Rightarrow>
                           (Returns False,
                            if err \<noteq> None
                            then call (Logger_Warnf ''Failed to delete accepted transport: %s'') s
                            else s))
                    else
                      (case dialTransport env factory remote public s of
                         (Inl err, s) \<Rightarrow>
                           (let s = call (Logger_Infof ''Failed to re-dial Transport %s: %s'') s
                            in case DeleteTransport env (mt_ID (objs s mTr)) s of
                                 (Panics, s) \<Rightarrow> (Panics, s)
                               | (Returns err, s) \<Rightarrow>
                                   (Returns False,
                                    if err \<noteq> None
                                    then call (Logger_Warnf ''Failed to delete re-dialled transport: %s'') s
                                    else s))
                       | (Inr (tr, entry), s) \<Rightarrow>
                           (let s = call (Logger_Infof ''Updating transport %s'') s
                            in (Returns False, updateTransport mTr tr s))))
              else
                (Returns False,
                 call (Logger_Infof ''Transport %s is already closing. Skipped error: %s'') s))
      | readLogChan n \<Rightarrow>
          (let m = objs s mTr;
               m = m\<lparr>ReceivedBytes := ReceivedBytes m + n\<rparr>;
               s = s\<lparr>objs := (objs s)(mTr := m)\<rparr>;
               err = Record_result env (calls s) (mt_ID m);
               s = call (LogStore_Record (mt_ID m) (ReceivedBytes m) (SentBytes m)) s
           in (Returns False,
               if err \<noteq> None then call (Logger_Warnf ''Failed to record log entry: %s'') s else s))
      | writeLogChan n \<Rightarrow>
          (let m = objs s mTr;
               m = m\<lparr>SentBytes := SentBytes m + n\<rparr>;
               s = s\<lparr>objs := (objs s)(mTr := m)\<rparr>;
               err = Record_result env (calls s) (mt_ID m);
               s = call (LogStore_Record (mt_ID m) (ReceivedBytes m) (SentBytes m)) s
           in (Returns False,
               if err \<noteq> None then call (Logger_Warnf ''Failed to record log entry: %s'') s else s)))"

text \<open>The loop over the events received; when they are used up the worker is waiting
  in \<open>select\<close> and has not returned.\<close>

fun manageTransport_loop ::
  "env \<Rightarrow> mtref \<Rightarrow> Factory \<Rightarrow> PubKey \<Rightarrow> bool \<Rightarrow> bool \<Rightarrow> chan_event list \<Rightarrow> state
     \<Rightarrow> bool outcome \<times> state" where
  "manageTransport_loop env mTr factory remote public accepted [] s = (Returns False, s)"
| "manageTransport_loop env mTr factory remote public accepted (ev # evs) s =
     (case manageTransport_select env mTr factory remote public accepted ev s of
        (Returns False, s) \<Rightarrow> manageTransport_loop env mTr factory remote public accepted evs s
      | (r, s) \<Rightarrow> (r, s))"

definition manageTransport ::
  "env \<Rightarrow> mtref \<Rightarrow> Factory \<Rightarrow> PubKey \<Rightarrow> bool \<Rightarrow> bool \<Rightarrow> chan_event list \<Rightarrow> state
     \<Rightarrow> bool outcome \<times> state" where
  "manageTransport env mTr factory remote public accepted evs s =
     (let s = s\<lparr>mgrQty := mgrQty s + 1\<rparr>;
          s = call (Logger_Infof ''Spawned manageTransport for mTr.ID: %v. mgrQty: %v'') s
      in manageTransport_loop env mTr factory remote public accepted evs s)"

subsection \<open>Reading the record of calls\<close>

definition new_calls :: "state \<Rightarrow> state \<Rightarrow> call list" where
  "new_calls s s' = drop (length (calls s)) (calls s')"

fun is_Close :: "call \<Rightarrow> bool" where
  "is_Close (ManagedTransport_Close tr) = True"
| "is_Close c = False"

fun is_Dial :: "call \<Rightarrow> bool" where
  "is_Dial (Factory_Dial f pk) = True"
| "is_Dial c = False"

fun is_updateTransport :: "call \<Rightarrow> bool" where
  "is_updateTransport (ManagedTransport_updateTransport m tr) = True"
| "is_updateTransport c = False"

subsection \<open>Concrete collaborators\<close>

text \<open>Collaborators for evaluating the manager on concrete states: \<open>Close\<close> panics on
  the nil pointer, factory 1 dials successfully and every other factory fails.\<close>

definition toy_env :: env where
  "toy_env = \<lparr>
     Close_result = (\<lambda>h tr. case tr of None \<Rightarrow> Panics | Some m \<Rightarrow> Returns None),
     isClosing_result = (\<lambda>h m. False),
     UpdateStatuses_result = (\<lambda>h uid up. None),
     Dial_result = (\<lambda>h f pk. if f = 1 then Inr 77 else Inl (ErrorsNew ''dial failed'')),
     Do_result = (\<lambda>h public tr.
        Inr \<lparr>entry_ID = 5, entry_Edges = ([1], [2]), entry_Type = ''messaging'', entry_Public = public\<rparr>),
     Record_result = (\<lambda>h uid. None)\<rparr>"

definition toy_mt :: ManagedTransport where
  "toy_mt = \<lparr>mt_ID = 5, mt_Public = True, mt_Transport = 70, ReceivedBytes = 0, SentBytes = 0\<rparr>"

definition toy_state :: state where
  "toy_state = \<lparr>transports = [5 \<mapsto> 3], doneChan_closed = False, mgrQty = 1,
     objs = (\<lambda>m. toy_mt), calls = []\<rparr>"

section \<open>Properties of the frame codec\<close>

subsection \<open>Big-endian helpers\<close>

lemma be16_split: "be16 (ucast (drop_bit 8 v)) (ucast v) = v"
  unfolding be16_def
  by (rule bit_word_eqI) (auto simp add: bit_simps)

lemma unat_lo: "unat (ucast (v::uint16) :: byte) = unat v mod 256"
  by (simp add: unsigned_ucast_eq take_bit_eq_mod)

lemma unat_hi: "unat (ucast (drop_bit 8 (v::uint16)) :: byte) = unat v div 256"
proof -
  have "unat v < 65536" using unsigned_less[of v, where 'a=nat] by simp
  then have "unat v div 256 < 256" by simp
  then show ?thesis
    by (simp add: unsigned_ucast_eq unsigned_drop_bit_eq take_bit_eq_mod drop_bit_eq_div unat_div)
qed

lemma unat_be16: "unat (be16 a b) = 256 * unat a + unat b"
proof -
  have d: "(ucast b :: uint16) OR push_bit 8 (ucast a) = ucast b + push_bit 8 (ucast a)"
    by (rule disjunctive_add[symmetric]) (auto simp add: bit_simps dest: bit_imp_le_length)
  have a: "unat a < 256" using unsigned_less[of a, where 'a=nat] by simp
  have b: "unat b < 256" using unsigned_less[of b, where 'a=nat] by simp
  have ub: "unat (ucast b :: uint16) = unat b"
    using b by (simp add: unsigned_ucast_eq take_bit_eq_mod)
  have ua: "unat (ucast a :: uint16) = unat a"
    using a by (simp add: unsigned_ucast_eq take_bit_eq_mod)
  have pa: "unat (push_bit 8 (ucast a :: uint16)) = 256 * unat a"
    using a by (simp add: push_bit_eq_mult unat_word_ariths ua)
  have "unat (ucast b + push_bit 8 (ucast a) :: uint16) = (unat b + 256 * unat a) mod 65536"
    by (simp add: unat_word_ariths(1) ub pa)
  also have "\<dots> = 256 * unat a + unat b" using a b by simp
  finally show ?thesis by (simp add: be16_def d)
qed

lemma PutUint16_2: "length b = 2 \<Longrightarrow> PutUint16 b v = [ucast (drop_bit 8 v), ucast v]"
  unfolding PutUint16_def
  by (cases b; cases "tl b"; auto)

lemma Uint16_pair: "Uint16 [a, b] = Inr (be16 a b)"
  by (simp add: Uint16_def)

subsection \<open>The frame as a list of bytes\<close>

lemma MakeFrame_eq:
  "MakeFrame ft chID pay =
     ft # ucast (drop_bit 8 chID) # ucast chID
        # ucast (drop_bit 8 (of_nat (length pay) :: uint16))
        # ucast (of_nat (length pay) :: uint16) # pay"
  unfolding MakeFrame_def Let_def headerLen_def copy_def
  by (simp add: PutUint16_2 numeral_eq_Suc)

lemma unat_len16: "unat (of_nat n :: uint16) = n mod 65536"
  by (simp add: unat_of_nat)

lemma Disassemble_header:
  "Disassemble (ft # ucast (drop_bit 8 chID) # ucast chID # a # b # p) = Inr (ft, chID, p)"
  by (simp add: Disassemble_def Type_def TpID_def Pay_def headerLen_def Uint16_pair be16_split)

lemma PayLen_header:
  "PayLen (ft # a # b # ucast (drop_bit 8 n) # ucast n # p) = Inr (unat (n :: uint16))"
  by (simp add: PayLen_def Uint16_pair be16_split)

lemma readFrame_header:
  assumes "unat (n :: uint16) \<le> length p"
  shows "readFrame (ft # ucast (drop_bit 8 chID) # ucast chID # ucast (drop_bit 8 n) # ucast n # p) =
    (Inr (ft # ucast (drop_bit 8 chID) # ucast chID # ucast (drop_bit 8 n) # ucast n # take (unat n) p,
      \<lparr>df_Type = ft, df_TpID = chID, df_Pay = take (unat n) p\<rparr>, None), drop (unat n) p)"
  using assms
  by (simp add: readFrame_def ReadFull_def headerLen_def PayLen_header Disassemble_header
      min_def Let_def)

text \<open>Reading back what \<open>MakeFrame\<close> wrote, for a payload of any length: the reader
  hands over as many payload bytes as the header declares.\<close>

lemma readFrame_MakeFrame:
  "readFrame (MakeFrame ft chID pay @ rest) =
    (Inr (take (headerLen + length pay mod 65536) (MakeFrame ft chID pay),
      \<lparr>df_Type = ft, df_TpID = chID, df_Pay = take (length pay mod 65536) pay\<rparr>, None),
     drop (length pay mod 65536) pay @ rest)"
proof -
  have le: "unat (of_nat (length pay) :: uint16) \<le> length (pay @ rest)"
    by (simp add: unat_len16 le_trans[OF mod_less_eq_dividend])
  have "length pay mod 65536 \<le> length pay" by simp
  then show ?thesis
    unfolding MakeFrame_eq headerLen_def using readFrame_header[OF le, of ft chID]
    by (simp add: unat_len16 take_Cons')
qed

lemma length_MakeFrame: "length (MakeFrame ft chID pay) = headerLen + length pay"
  by (simp add: MakeFrame_eq headerLen_def)

lemma Disassemble_MakeFrame: "Disassemble (MakeFrame ft chID pay) = Inr (ft, chID, pay)"
  by (simp add: MakeFrame_eq Disassemble_header)

lemma PayLen_MakeFrame: "PayLen (MakeFrame ft chID pay) = Inr (length pay mod 65536)"
  by (simp add: MakeFrame_eq PayLen_header unat_len16)

text \<open>
  Claim C1 (frame round-trip). For every frame type, stream id and payload of at most
  65535 bytes, \<open>MakeFrame\<close> produces \<open>5 + len(payload)\<close> bytes, and decoding them gives
  back the type, the id and the payload: by \<open>Disassemble\<close> on the frame, and by
  \<open>readFrame\<close> on a reader holding exactly those bytes (or those bytes followed by
  others, which are left in the reader).
\<close>

theorem frame_round_trip:
  assumes "length pay \<le> 65535"
  shows "length (MakeFrame ft tid pay) = 5 + length pay
    \<and> Disassemble (MakeFrame ft tid pay) = Inr (ft, tid, pay)
    \<and> PayLen (MakeFrame ft tid pay) = Inr (length pay)
    \<and> readFrame (MakeFrame ft tid pay) =
        (Inr (MakeFrame ft tid pay, \<lparr>df_Type = ft, df_TpID = tid, df_Pay = pay\<rparr>, None), [])
    \<and> readFrame (MakeFrame ft tid pay @ rest) =
        (Inr (MakeFrame ft tid pay, \<lparr>df_Type = ft, df_TpID = tid, df_Pay = pay\<rparr>, None), rest)"
proof -
  from assms have m: "length pay mod 65536 = length pay" by simp
  have a: "readFrame (MakeFrame ft tid pay @ r) =
        (Inr (MakeFrame ft tid pay, \<lparr>df_Type = ft, df_TpID = tid, df_Pay = pay\<rparr>, None), r)" for r
    by (simp add: readFrame_MakeFrame m length_MakeFrame)
  show ?thesis
    using a[of "[]"] a[of rest]
    by (simp add: length_MakeFrame headerLen_def Disassemble_MakeFrame PayLen_MakeFrame m)
qed

theorem frame_round_trip_witness:
  "length [0x41, 0x42, 0x43 :: byte] \<le> 65535
   \<and> MakeFrame FwdType 0x0102 [0x41, 0x42, 0x43] = [0x0A, 0x01, 0x02, 0x00, 0x03, 0x41, 0x42, 0x43]
   \<and> Disassemble [0x0A, 0x01, 0x02, 0x00, 0x03, 0x41, 0x42, 0x43] = Inr (0x0A, 0x0102, [0x41, 0x42, 0x43])
   \<and> readFrame [0x0A, 0x01, 0x02, 0x00, 0x03, 0x41, 0x42, 0x43] =
        (Inr ([0x0A, 0x01, 0x02, 0x00, 0x03, 0x41, 0x42, 0x43],
           \<lparr>df_Type = 0x0A, df_TpID = 0x0102, df_Pay = [0x41, 0x42, 0x43]\<rparr>, None), [])"
proof -
  have m: "MakeFrame FwdType 0x0102 [0x41, 0x42, 0x43] = [0x0A, 0x01, 0x02, 0x00, 0x03, 0x41, 0x42, 0x43]"
    by (simp add: MakeFrame_eq FwdType_def)
  show ?thesis
    using frame_round_trip [where pay = "[0x41, 0x42, 0x43]" and ft = FwdType and tid = "0x0102" and rest = "[]"]
    unfolding m by (simp add: FwdType_def)
qed

text \<open>
  Claim C9 (payloads longer than 65535 bytes). \<open>MakeFrame\<close> still builds a frame of
  \<open>5 + len(payload)\<close> bytes that holds the whole payload, but the header's length field
  is \<open>len(payload) mod 2^16\<close>, which differs from the payload's length; \<open>readFrame\<close>
  on those bytes then returns only the first \<open>len(payload) mod 2^16\<close> payload bytes,
  without an error, and leaves the others in the reader, so the round-trip fails.
\<close>

theorem oversized_payload:
  assumes "65535 < length pay"
  shows "length (MakeFrame ft tid pay) = 5 + length pay
    \<and> Pay (MakeFrame ft tid pay) = Inr pay
    \<and> PayLen (MakeFrame ft tid pay) = Inr (length pay mod 2 ^ 16)
    \<and> PayLen (MakeFrame ft tid pay) \<noteq> Inr (length pay)
    \<and> readFrame (MakeFrame ft tid pay) =
        (Inr (take (5 + length pay mod 2 ^ 16) (MakeFrame ft tid pay),
              \<lparr>df_Type = ft, df_TpID = tid, df_Pay = take (length pay mod 2 ^ 16) pay\<rparr>, None),
         drop (length pay mod 2 ^ 16) pay)
    \<and> take (length pay mod 2 ^ 16) pay \<noteq> pay"
proof -
  have lt: "length pay mod 65536 < 65536" by simp
  with assms have ne: "length pay mod 65536 \<noteq> length pay" by linarith
  have tk: "take (length pay mod 65536) pay \<noteq> pay"
    using ne by (metis length_take min.absorb2 mod_less_eq_dividend)
  have p: "Pay (MakeFrame ft tid pay) = Inr pay"
    by (simp add: Pay_def MakeFrame_eq headerLen_def)
  show ?thesis
    using readFrame_MakeFrame [of ft tid pay "[]"] ne tk p
    by (simp add: length_MakeFrame headerLen_def PayLen_MakeFrame)
qed

theorem oversized_payload_witness:
  "65535 < length (replicate 65536 (0x41 :: byte))
   \<and> length (MakeFrame FwdType 7 (replicate 65536 0x41)) = 65541
   \<and> PayLen (MakeFrame FwdType 7 (replicate 65536 0x41)) = Inr 0
   \<and> fst (readFrame (MakeFrame FwdType 7 (replicate 65536 0x41))) =
        Inr ([0x0A, 0, 7, 0, 0], \<lparr>df_Type = 0x0A, df_TpID = 7, df_Pay = []\<rparr>, None)
   \<and> snd (readFrame (MakeFrame FwdType 7 (replicate 65536 0x41))) = replicate 65536 0x41"
  using oversized_payload [where pay = "replicate 65536 0x41" and ft = FwdType and tid = 7]
  by (simp add: MakeFrame_eq FwdType_def)

subsection \<open>ACK frames\<close>

lemma writeAckFrame_ok:
  "writeAckFrame \<lparr>written = out, failure = None\<rparr> tid offset =
     (\<lparr>written = out @ [0x0B, ucast (drop_bit 8 tid), ucast tid, 0, 2,
                          ucast (drop_bit 8 offset), ucast offset], failure = None\<rparr>, None)"
  by (simp add: writeAckFrame_def writeFrame_def Write_def PutUint16_2 MakeFrame_eq AckType_def)

lemma writeAckFrame_broken:
  "writeAckFrame \<lparr>written = out, failure = Some e\<rparr> tid offset =
     (\<lparr>written = out, failure = Some e\<rparr>, Some (WriteError e))"
  by (simp add: writeAckFrame_def writeFrame_def Write_def)

lemma disassembleAckPayload_2:
  "length p = 2 \<Longrightarrow> disassembleAckPayload p = Inr (be16 (p ! 0) (p ! 1), None)"
  by (simp add: disassembleAckPayload_def Uint16_def)

lemma disassembleAckPayload_bad:
  "length p \<noteq> 2 \<Longrightarrow> disassembleAckPayload p = Inr (0, Some (ErrorsNew ''invalid ACK payload size''))"
  by (simp add: disassembleAckPayload_def)

text \<open>
  Claim C6 (ACK payload). On a writer that accepts the write, \<open>writeAckFrame\<close> appends
  one ACK frame whose payload is the two bytes of the offset, high byte first (offset
  div 256, then offset mod 256; \<open>0xBEEF\<close> gives \<open>BE EF\<close>). \<open>disassembleAckPayload\<close>
  returns the big-endian value of a payload of exactly two bytes with a nil error, and
  the value 0 with the error "invalid ACK payload size" for any other length; hence it
  gives back every offset that \<open>writeAckFrame\<close> wrote.
\<close>

theorem ack_payload:
  "writeAckFrame \<lparr>written = out, failure = None\<rparr> tid offset =
     (\<lparr>written = out @ MakeFrame AckType tid [ucast (drop_bit 8 offset), ucast offset],
       failure = None\<rparr>, None)
   \<and> MakeFrame AckType tid [ucast (drop_bit 8 offset), ucast offset] =
       [0x0B, ucast (drop_bit 8 tid), ucast tid, 0, 2, ucast (drop_bit 8 offset), ucast offset]
   \<and> unat (ucast (drop_bit 8 offset) :: byte) = unat offset div 256
   \<and> unat (ucast offset :: byte) = unat offset mod 256
   \<and> Disassemble (MakeFrame AckType tid [ucast (drop_bit 8 offset), ucast offset]) =
       Inr (AckType, tid, [ucast (drop_bit 8 offset), ucast offset])
   \<and> disassembleAckPayload [ucast (drop_bit 8 offset), ucast offset] = Inr (offset, None)
   \<and> (\<forall>p. length p = 2 \<longrightarrow>
         (\<exists>v. disassembleAckPayload p = Inr (v, None) \<and> unat v = 256 * unat (p ! 0) + unat (p ! 1)))
   \<and> (\<forall>p. length p \<noteq> 2 \<longrightarrow>
         disassembleAckPayload p = Inr (0, Some (ErrorsNew ''invalid ACK payload size'')))"
proof -
  have m: "MakeFrame AckType tid [ucast (drop_bit 8 offset), ucast offset] =
       [0x0B, ucast (drop_bit 8 tid), ucast tid, 0, 2, ucast (drop_bit 8 offset), ucast offset]"
    by (simp add: MakeFrame_eq AckType_def)
  have w: "writeAckFrame \<lparr>written = out, failure = None\<rparr> tid offset =
     (\<lparr>written = out @ MakeFrame AckType tid [ucast (drop_bit 8 offset), ucast offset],
       failure = None\<rparr>, None)"
    unfolding m by (rule writeAckFrame_ok)
  have d: "disassembleAckPayload [ucast (drop_bit 8 offset), ucast offset] = Inr (offset, None)"
    by (simp add: disassembleAckPayload_2 be16_split)
  have g: "\<forall>p. length p = 2 \<longrightarrow>
         (\<exists>v. disassembleAckPayload p = Inr (v, None) \<and> unat v = 256 * unat (p ! 0) + unat (p ! 1))"
    by (simp add: disassembleAckPayload_2 unat_be16)
  have b: "\<forall>p. length p \<noteq> 2 \<longrightarrow>
         disassembleAckPayload p = Inr (0, Some (ErrorsNew ''invalid ACK payload size''))"
    by (simp add: disassembleAckPayload_bad)
  show ?thesis
    using w m unat_hi [of offset] unat_lo [of offset]
      Disassemble_MakeFrame [of AckType tid "[ucast (drop_bit 8 offset), ucast offset]"] d g b
    by blast
qed

theorem ack_payload_witness:
  "writeAckFrame \<lparr>written = [], failure = None\<rparr> 7 0xBEEF =
     (\<lparr>written = [0x0B, 0, 7, 0, 2, 0xBE, 0xEF], failure = None\<rparr>, None)
   \<and> length [0xBE, 0xEF :: byte] = 2
   \<and> disassembleAckPayload [0xBE, 0xEF] = Inr (0xBEEF, None)
   \<and> length [0xBE :: byte] \<noteq> 2
   \<and> disassembleAckPayload [0xBE] = Inr (0, Some (ErrorsNew ''invalid ACK payload size''))"
proof -
  have h: "ucast (drop_bit 8 (0xBEEF :: uint16)) = (0xBE :: byte)" "ucast (0xBEEF :: uint16) = (0xEF :: byte)"
    "ucast (drop_bit 8 (7 :: uint16)) = (0 :: byte)" "ucast (7 :: uint16) = (7 :: byte)"
    by simp_all
  note t = ack_payload [where out = "[]" and tid = 7 and offset = "0xBEEF", unfolded h]
  from t have a: "writeAckFrame \<lparr>written = [], failure = None\<rparr> 7 0xBEEF =
     (\<lparr>written = [0x0B, 0, 7, 0, 2, 0xBE, 0xEF], failure = None\<rparr>, None)" by simp
  from t have b: "disassembleAckPayload [0xBE, 0xEF] = Inr (0xBEEF, None)" by simp
  from t have "length [0xBE :: byte] \<noteq> 2 \<longrightarrow>
         disassembleAckPayload [0xBE] = Inr (0, Some (ErrorsNew ''invalid ACK payload size''))" by blast
  with a b show ?thesis by simp
qed


subsection \<open>Names of frame types\<close>

lemma names_eq:
  "names = [''OK'', ''REQUEST'', ''ACCEPT'', ''CLOSE'', [], [], [], [], [], [], ''FWD'', ''ACK'']"
  by code_simp

lemma length_names: "length names = 12"
  by (simp add: names_eq)

lemma String_unknown: "12 \<le> unat ft \<Longrightarrow> String ft = ''UNKNOWN:'' @ decimal (unat ft)"
  by (simp add: String_def length_names)

lemma String_known: "unat ft < 12 \<Longrightarrow> String ft = names ! unat ft"
  by (simp add: String_def length_names)

lemma names_not_unknown: "\<forall>s \<in> set names. take 8 s \<noteq> ''UNKNOWN:''"
  by (simp add: names_eq)

lemma String_known_not_unknown: "unat ft < 12 \<Longrightarrow> take 8 (String ft) \<noteq> ''UNKNOWN:''"
proof -
  assume a: "unat ft < 12"
  then have "names ! unat ft \<in> set names" by (simp add: length_names)
  with names_not_unknown String_known [OF a] show ?thesis by simp
qed

lemma String_gap: "4 \<le> unat ft \<Longrightarrow> unat ft \<le> 9 \<Longrightarrow> String ft = []"
proof -
  assume a: "4 \<le> unat ft" "unat ft \<le> 9"
  then have lt: "unat ft < 12" by simp
  have d: "drop 4 names = replicate 6 [] @ [''FWD'', ''ACK'']"
    by (simp add: names_eq eval_nat_numeral)
  have "names ! unat ft = drop 4 names ! (unat ft - 4)"
    using a length_names by simp
  also have "\<dots> = []"
    unfolding d using a by (simp add: nth_append)
  finally show ?thesis using String_known [OF lt] by simp
qed

text \<open>
  Claim C10 (names of frame types). \<open>String\<close> returns the name of each defined type
  (OK, REQUEST, ACCEPT, CLOSE, FWD, ACK); it returns "UNKNOWN:" followed by the decimal
  value exactly for the values from 12 on; for the undefined values 4 to 9, which lie
  inside the sparse table of names, it returns the empty string.
\<close>

theorem frame_type_names:
  "String OkType = ''OK'' \<and> String RequestType = ''REQUEST'' \<and> String AcceptType = ''ACCEPT''
   \<and> String CloseType = ''CLOSE'' \<and> String FwdType = ''FWD'' \<and> String AckType = ''ACK''
   \<and> (\<forall>ft. 12 \<le> unat ft \<longrightarrow> String ft = ''UNKNOWN:'' @ decimal (unat ft))
   \<and> (\<forall>ft. take 8 (String ft) = ''UNKNOWN:'' \<longleftrightarrow> 12 \<le> unat ft)
   \<and> (\<forall>ft. 4 \<le> unat ft \<and> unat ft \<le> 9 \<longrightarrow> String ft = [])"
proof -
  have k: "String OkType = ''OK''" "String RequestType = ''REQUEST''" "String AcceptType = ''ACCEPT''"
    "String CloseType = ''CLOSE''" "String FwdType = ''FWD''" "String AckType = ''ACK''"
    by (simp_all add: String_def names_eq OkType_def RequestType_def AcceptType_def CloseType_def
        FwdType_def AckType_def)
  have u: "\<forall>ft. take 8 (String ft) = ''UNKNOWN:'' \<longleftrightarrow> 12 \<le> unat ft"
  proof
    fix ft show "take 8 (String ft) = ''UNKNOWN:'' \<longleftrightarrow> 12 \<le> unat ft"
    proof (cases "12 \<le> unat ft")
      case True
      then show ?thesis by (simp add: String_unknown)
    next
      case False
      then have "unat ft < 12" by simp
      from String_known_not_unknown [OF this] False show ?thesis by simp
    qed
  qed
  show ?thesis
    using k u String_unknown String_gap by blast
qed

theorem frame_type_names_witness:
  "12 \<le> unat (12 :: FrameType) \<and> String 12 = ''UNKNOWN:12''
   \<and> 12 \<le> unat (255 :: FrameType) \<and> String 255 = ''UNKNOWN:255''
   \<and> 4 \<le> unat (4 :: FrameType) \<and> unat (4 :: FrameType) \<le> 9 \<and> String 4 = []
   \<and> String 9 = [] \<and> String 11 = ''ACK''"
proof -
  note t = frame_type_names
  have d: "decimal 12 = ''12''" "decimal 255 = ''255''" by code_simp+
  from t have "12 \<le> unat (12 :: FrameType) \<longrightarrow> String 12 = ''UNKNOWN:'' @ decimal (unat (12 :: FrameType))" by blast
  then have a: "String 12 = ''UNKNOWN:12''" by (simp add: d)
  from t have "12 \<le> unat (255 :: FrameType) \<longrightarrow> String 255 = ''UNKNOWN:'' @ decimal (unat (255 :: FrameType))" by blast
  then have b: "String 255 = ''UNKNOWN:255''" by (simp add: d)
  from t have "4 \<le> unat (4 :: FrameType) \<and> unat (4 :: FrameType) \<le> 9 \<longrightarrow> String 4 = []" by blast
  then have c: "String 4 = []" by simp
  from t have "4 \<le> unat (9 :: FrameType) \<and> unat (9 :: FrameType) \<le> 9 \<longrightarrow> String 9 = []" by blast
  then have e: "String 9 = []" by simp
  from t have "String AckType = ''ACK''" by blast
  then have f: "String 11 = ''ACK''" by (simp add: AckType_def)
  from a b c e f show ?thesis by simp
qed


section \<open>Properties of stream identifiers\<close>

lemma word_mod2_unat: "(w :: uint16) mod 2 = 0 \<longleftrightarrow> unat w mod 2 = 0"
  by (simp add: word_eq_iff_unsigned [where ?'a = nat] unat_mod)

lemma isInitiatorID_iff: "isInitiatorID tid \<longleftrightarrow> unat tid mod 2 = 0"
  by (simp add: isInitiatorID_def word_mod2_unat)

lemma randID_parity:
  "randID initiator rnd = Some (tid, rnd') \<Longrightarrow> (initiator \<longleftrightarrow> unat tid mod 2 = 0)"
proof (induction initiator rnd rule: randID.induct)
  case (1 initiator b0 b1 rnd)
  then show ?case
    by (auto simp add: Let_def word_mod2_unat split: if_splits)
qed simp_all

text \<open>The loop returns as soon as the source holds a draw of the wanted parity.\<close>

lemma randID_returns:
  "randID initiator (b0 # b1 # rnd) \<noteq> None \<longleftrightarrow>
     (initiator \<longleftrightarrow> unat (be16 b0 b1) mod 2 = 0) \<or> randID initiator rnd \<noteq> None"
  by (auto simp add: Let_def word_mod2_unat)

text \<open>
  Claim C4 (parity of stream ids). Every id that \<open>randID(true)\<close> returns is even, every
  id that \<open>randID(false)\<close> returns is odd, and \<open>isInitiatorID(id)\<close> holds exactly when
  the id is even; so it is true of every result of \<open>randID(true)\<close> and false of every
  result of \<open>randID(false)\<close>.
\<close>

theorem stream_id_parity:
  "(randID True rnd = Some (tid, rnd') \<longrightarrow> unat tid mod 2 = 0 \<and> isInitiatorID tid)
   \<and> (randID False rnd = Some (tid, rnd') \<longrightarrow> unat tid mod 2 = 1 \<and> \<not> isInitiatorID tid)
   \<and> (isInitiatorID tid \<longleftrightarrow> unat tid mod 2 = 0)"
proof -
  have a: "randID True rnd = Some (tid, rnd') \<longrightarrow> unat tid mod 2 = 0"
    using randID_parity [of True rnd tid rnd'] by simp
  have b: "randID False rnd = Some (tid, rnd') \<longrightarrow> unat tid mod 2 = 1"
    using randID_parity [of False rnd tid rnd'] by auto
  show ?thesis using a b isInitiatorID_iff [of tid] by auto
qed

theorem stream_id_parity_witness:
  "randID True [0x00, 0x01, 0x00, 0x03, 0x01, 0x02, 0x09] = Some (0x0102, [0x09])
   \<and> unat (0x0102 :: uint16) mod 2 = 0 \<and> isInitiatorID 0x0102
   \<and> randID False [0x01, 0x02, 0x00, 0x03, 0x09] = Some (0x0003, [0x09])
   \<and> unat (0x0003 :: uint16) mod 2 = 1 \<and> \<not> isInitiatorID 0x0003"
proof -
  have r: "randID True [0x00, 0x01, 0x00, 0x03, 0x01, 0x02, 0x09] = Some (0x0102, [0x09])"
    "randID False [0x01, 0x02, 0x00, 0x03, 0x09] = Some (0x0003, [0x09])"
    by (simp_all add: be16_def)
  from r
    stream_id_parity [where rnd = "[0x00, 0x01, 0x00, 0x03, 0x01, 0x02, 0x09]" and tid = "0x0102" and rnd' = "[0x09]"]
    stream_id_parity [where rnd = "[0x01, 0x02, 0x00, 0x03, 0x09]" and tid = "0x0003" and rnd' = "[0x09]"]
  show ?thesis by simp
qed


section \<open>Properties of dial requests\<close>

text \<open>
  Claim C2 (errors of \<open>SessionDialRequest.Verify\<close>). For every request and every last
  timestamp, \<open>Verify\<close> returns \<open>ErrDialReqInvalidSrcPK\<close> when the source key is null;
  \<open>ErrDialReqInvalidDstPK\<close> when the source key is not null and the destination key
  is; \<open>ErrDialReqInvalidTimestamp\<close> when both keys are non-null and the timestamp is
  not above the last one (so verifying a request against its own timestamp is
  rejected); \<open>ErrDialReqInvalidSig\<close> when keys and timestamp pass and the signature
  does not verify under the source key over the encoding of the request with its
  signature zeroed; and nil otherwise.
\<close>

theorem verify_errors:
  "(Null c (SrcPK dr) \<longrightarrow> Verify c encodeGob dr lastTimestamp = Some ErrDialReqInvalidSrcPK)
   \<and> (\<not> Null c (SrcPK dr) \<and> Null c (DstPK dr) \<longrightarrow>
        Verify c encodeGob dr lastTimestamp = Some ErrDialReqInvalidDstPK)
   \<and> (\<not> Null c (SrcPK dr) \<and> \<not> Null c (DstPK dr) \<and> sint (Timestamp dr) \<le> sint lastTimestamp \<longrightarrow>
        Verify c encodeGob dr lastTimestamp = Some ErrDialReqInvalidTimestamp)
   \<and> (\<not> Null c (SrcPK dr) \<and> \<not> Null c (DstPK dr) \<longrightarrow>
        Verify c encodeGob dr (Timestamp dr) = Some ErrDialReqInvalidTimestamp)
   \<and> (\<not> Null c (SrcPK dr) \<and> \<not> Null c (DstPK dr) \<and> sint lastTimestamp < sint (Timestamp dr)
        \<and> VerifyPubKeySignedPayload c (SrcPK dr) (Sig dr) (encodeGob (dr\<lparr>Sig := zero_Sig c\<rparr>)) \<noteq> None \<longrightarrow>
        Verify c encodeGob dr lastTimestamp = Some ErrDialReqInvalidSig)
   \<and> (\<not> Null c (SrcPK dr) \<and> \<not> Null c (DstPK dr) \<and> sint lastTimestamp < sint (Timestamp dr)
        \<and> VerifyPubKeySignedPayload c (SrcPK dr) (Sig dr) (encodeGob (dr\<lparr>Sig := zero_Sig c\<rparr>)) = None \<longrightarrow>
        Verify c encodeGob dr lastTimestamp = None)"
  by (auto simp add: Verify_def Let_def)

theorem verify_errors_witness:
  "Verify toy_cipher toy_gob \<lparr>Timestamp = 5, SrcPK = [], DstPK = [2], Sig = []\<rparr> 0 = Some ErrDialReqInvalidSrcPK
   \<and> Verify toy_cipher toy_gob \<lparr>Timestamp = 5, SrcPK = [1], DstPK = [], Sig = []\<rparr> 0 = Some ErrDialReqInvalidDstPK
   \<and> Verify toy_cipher toy_gob \<lparr>Timestamp = 5, SrcPK = [1], DstPK = [2], Sig = [1, 5, 1, 2]\<rparr> 0 = None
   \<and> Verify toy_cipher toy_gob \<lparr>Timestamp = 5, SrcPK = [1], DstPK = [2], Sig = [1, 5, 1, 2]\<rparr> 5 = Some ErrDialReqInvalidTimestamp
   \<and> Verify toy_cipher toy_gob \<lparr>Timestamp = 5, SrcPK = [1], DstPK = [2], Sig = [1, 5, 1, 2]\<rparr> 9 = Some ErrDialReqInvalidTimestamp
   \<and> Verify toy_cipher toy_gob \<lparr>Timestamp = 5, SrcPK = [1], DstPK = [2], Sig = [9]\<rparr> 0 = Some ErrDialReqInvalidSig"
  using
    verify_errors [where c = toy_cipher and encodeGob = toy_gob and lastTimestamp = 0
      and dr = "\<lparr>Timestamp = 5, SrcPK = [], DstPK = [2], Sig = []\<rparr>"]
    verify_errors [where c = toy_cipher and encodeGob = toy_gob and lastTimestamp = 0
      and dr = "\<lparr>Timestamp = 5, SrcPK = [1], DstPK = [], Sig = []\<rparr>"]
    verify_errors [where c = toy_cipher and encodeGob = toy_gob and lastTimestamp = 0
      and dr = "\<lparr>Timestamp = 5, SrcPK = [1], DstPK = [2], Sig = [1, 5, 1, 2]\<rparr>"]
    verify_errors [where c = toy_cipher and encodeGob = toy_gob and lastTimestamp = 9
      and dr = "\<lparr>Timestamp = 5, SrcPK = [1], DstPK = [2], Sig = [1, 5, 1, 2]\<rparr>"]
    verify_errors [where c = toy_cipher and encodeGob = toy_gob and lastTimestamp = 0
      and dr = "\<lparr>Timestamp = 5, SrcPK = [1], DstPK = [2], Sig = [9]\<rparr>"]
  by (simp add: toy_cipher_def toy_gob_def)

text \<open>
  Claim C3 (the hash ignores the signature). For session dial requests and for stream
  dial requests alike, \<open>Hash\<close> of a request equals \<open>Hash\<close> of the request with any
  other signature, in particular with the zero signature; two requests whose fields
  other than \<open>Sig\<close> are equal have the same hash.
\<close>

theorem hash_ignores_sig:
  "Hash c encodeGob (dr\<lparr>Sig := s\<rparr>) = Hash c encodeGob dr
   \<and> Hash c encodeGob dr = Hash c encodeGob (dr\<lparr>Sig := zero_Sig c\<rparr>)
   \<and> (Timestamp a = Timestamp b \<and> SrcPK a = SrcPK b \<and> DstPK a = DstPK b \<longrightarrow>
        Hash c encodeGob a = Hash c encodeGob b)
   \<and> sd_Hash c encodeGob' (sdr\<lparr>sd_Sig := s\<rparr>) = sd_Hash c encodeGob' sdr
   \<and> sd_Hash c encodeGob' sdr = sd_Hash c encodeGob' (sdr\<lparr>sd_Sig := zero_Sig c\<rparr>)
   \<and> (sd_Timestamp a' = sd_Timestamp b' \<and> sd_SrcAddr a' = sd_SrcAddr b' \<and> sd_DstAddr a' = sd_DstAddr b'
        \<and> sd_NoiseMsg a' = sd_NoiseMsg b' \<longrightarrow>
        sd_Hash c encodeGob' a' = sd_Hash c encodeGob' b')"
proof -
  have e: "a\<lparr>Sig := zero_Sig c\<rparr> = b\<lparr>Sig := zero_Sig c\<rparr>"
    if "Timestamp a = Timestamp b \<and> SrcPK a = SrcPK b \<and> DstPK a = DstPK b"
    using that by (cases a, cases b) simp
  have e': "a'\<lparr>sd_Sig := zero_Sig c\<rparr> = b'\<lparr>sd_Sig := zero_Sig c\<rparr>"
    if "sd_Timestamp a' = sd_Timestamp b' \<and> sd_SrcAddr a' = sd_SrcAddr b'
        \<and> sd_DstAddr a' = sd_DstAddr b' \<and> sd_NoiseMsg a' = sd_NoiseMsg b'"
    using that by (cases a', cases b') simp
  have h: "Timestamp a = Timestamp b \<and> SrcPK a = SrcPK b \<and> DstPK a = DstPK b \<longrightarrow>
        Hash c encodeGob a = Hash c encodeGob b"
    by (simp add: Hash_def Let_def e)
  have h': "sd_Timestamp a' = sd_Timestamp b' \<and> sd_SrcAddr a' = sd_SrcAddr b'
        \<and> sd_DstAddr a' = sd_DstAddr b' \<and> sd_NoiseMsg a' = sd_NoiseMsg b' \<longrightarrow>
        sd_Hash c encodeGob' a' = sd_Hash c encodeGob' b'"
    by (simp add: sd_Hash_def Let_def e')
  show ?thesis
    using h h' by (simp add: Hash_def sd_Hash_def Let_def)
qed

theorem hash_ignores_sig_witness:
  "Hash toy_cipher toy_gob \<lparr>Timestamp = 5, SrcPK = [1], DstPK = [2], Sig = [7, 7]\<rparr> = [5, 1, 2]
   \<and> Hash toy_cipher toy_gob \<lparr>Timestamp = 5, SrcPK = [1], DstPK = [2], Sig = [8]\<rparr> = [5, 1, 2]
   \<and> sd_Hash toy_cipher toy_sd_gob
        \<lparr>sd_Timestamp = 5, sd_SrcAddr = \<lparr>PK = [1], Port = 1\<rparr>, sd_DstAddr = \<lparr>PK = [2], Port = 2\<rparr>,
          sd_NoiseMsg = [3], sd_Sig = [7, 7]\<rparr>
      = sd_Hash toy_cipher toy_sd_gob
        \<lparr>sd_Timestamp = 5, sd_SrcAddr = \<lparr>PK = [1], Port = 1\<rparr>, sd_DstAddr = \<lparr>PK = [2], Port = 2\<rparr>,
          sd_NoiseMsg = [3], sd_Sig = [8]\<rparr>"
proof -
  have v: "Hash toy_cipher toy_gob \<lparr>Timestamp = 5, SrcPK = [1], DstPK = [2], Sig = [7, 7]\<rparr> = [5, 1, 2]"
    by (simp add: Hash_def toy_cipher_def toy_gob_def)
  from v
    hash_ignores_sig [where c = toy_cipher and encodeGob = toy_gob and encodeGob' = toy_sd_gob
      and a = "\<lparr>Timestamp = 5, SrcPK = [1], DstPK = [2], Sig = [7, 7]\<rparr>"
      and b = "\<lparr>Timestamp = 5, SrcPK = [1], DstPK = [2], Sig = [8]\<rparr>"
      and a' = "\<lparr>sd_Timestamp = 5, sd_SrcAddr = \<lparr>PK = [1], Port = 1\<rparr>, sd_DstAddr = \<lparr>PK = [2], Port = 2\<rparr>,
          sd_NoiseMsg = [3], sd_Sig = [7, 7]\<rparr>"
      and b' = "\<lparr>sd_Timestamp = 5, sd_SrcAddr = \<lparr>PK = [1], Port = 1\<rparr>, sd_DstAddr = \<lparr>PK = [2], Port = 2\<rparr>,
          sd_NoiseMsg = [3], sd_Sig = [8]\<rparr>"]
  show ?thesis by simp
qed


section \<open>Properties of the port manager\<close>

lemma randomEphemeralPort_Some:
  "randomEphemeralPort pm = Some (port, pm') \<Longrightarrow>
     (\<exists>v rnd'. rand pm = v # rnd' \<and> port = of_nat (49152 + v mod 16383) \<and> pm' = pm\<lparr>rand := rnd'\<rparr>)"
  by (auto simp add: randomEphemeralPort_def Intn_def firstEphemeralPort_def lastEphemeralPort_def
      split: list.splits)

lemma randomEphemeralPort_range:
  assumes "randomEphemeralPort pm = Some (port, pm')"
  shows "49152 \<le> unat port \<and> unat port < 65535 \<and> listeners pm' = listeners pm"
proof -
  from randomEphemeralPort_Some [OF assms] obtain v rnd' where
    p: "port = of_nat (49152 + v mod 16383)" and pm': "pm' = pm\<lparr>rand := rnd'\<rparr>" by blast
  have "v mod 16383 < 16383" by simp
  then have "49152 + v mod 16383 < 65535" by simp
  then have "unat port = 49152 + v mod 16383"
    unfolding p unat_len16 by simp
  then show ?thesis using pm' by simp
qed

lemma NextEmptyEphemeralPort_Some:
  "NextEmptyEphemeralPort pm = Some (port, pm') \<Longrightarrow>
     49152 \<le> unat port \<and> unat port < 65535 \<and> listeners pm port = None \<and> listeners pm' = listeners pm"
proof (induction pm rule: NextEmptyEphemeralPort.induct)
  case (1 pm)
  from "1.prems" obtain q pm1 where r: "randomEphemeralPort pm = Some (q, pm1)"
    by (subst (asm) NextEmptyEphemeralPort.simps) (auto split: option.splits)
  note rg = randomEphemeralPort_range [OF r]
  show ?case
  proof (cases "Listener pm1 q = None")
    case True
    with "1.prems" r have "port = q" "pm' = pm1"
      by (subst (asm) NextEmptyEphemeralPort.simps, simp)+
    with rg True show ?thesis by (simp add: Listener_def)
  next
    case False
    with "1.prems" r have n: "NextEmptyEphemeralPort pm1 = Some (port, pm')"
      by (subst (asm) NextEmptyEphemeralPort.simps) simp
    from "1.IH" [OF r refl False n] rg show ?thesis by simp
  qed
qed

text \<open>
  Claim C5 (ephemeral ports). Every port that \<open>NextEmptyEphemeralPort\<close> returns lies in
  the half-open range from 49152 to 65535 and has no listener in the port manager's
  map (which the call leaves as it was); in particular, called after
  \<open>AddListener(l, p)\<close> with nothing removed in between, it does not return \<open>p\<close>.
\<close>

theorem ephemeral_port:
  "(NextEmptyEphemeralPort pm = Some (port, pm') \<longrightarrow>
      49152 \<le> unat port \<and> unat port < 65535 \<and> Listener pm port = None
      \<and> listeners pm' = listeners pm)
   \<and> (NextEmptyEphemeralPort (AddListener pm l p) = Some (port, pm') \<longrightarrow> port \<noteq> p)"
proof -
  have a: "NextEmptyEphemeralPort (AddListener pm l p) = Some (port, pm') \<longrightarrow> port \<noteq> p"
  proof
    assume "NextEmptyEphemeralPort (AddListener pm l p) = Some (port, pm')"
    from NextEmptyEphemeralPort_Some [OF this]
    have "listeners (AddListener pm l p) port = None" by simp
    then show "port \<noteq> p" by (auto simp add: AddListener_def)
  qed
  show ?thesis
    using a NextEmptyEphemeralPort_Some [of pm port pm'] by (simp add: Listener_def)
qed

text \<open>The loop returns once the generator yields a port without a listener.\<close>

lemma NextEmptyEphemeralPort_returns:
  "listeners pm (of_nat (49152 + v mod 16383)) = None \<Longrightarrow>
   NextEmptyEphemeralPort (pm\<lparr>rand := v # rnd\<rparr>) =
     Some (of_nat (49152 + v mod 16383), pm\<lparr>rand := rnd\<rparr>)"
  by (subst NextEmptyEphemeralPort.simps)
     (simp add: randomEphemeralPort_def Intn_def Listener_def firstEphemeralPort_def lastEphemeralPort_def)

theorem ephemeral_port_witness:
  "NextEmptyEphemeralPort
      (AddListener \<lparr>rand = [16382, 5, 16383, 1], listeners = [49157 \<mapsto> ''a'']\<rparr> ''b'' 65534)
     = Some (49152, \<lparr>rand = [1], listeners = [49157 \<mapsto> ''a'', 65534 \<mapsto> ''b'']\<rparr>)
   \<and> 49152 \<le> unat (49152 :: uint16) \<and> unat (49152 :: uint16) < 65535
   \<and> Listener (AddListener \<lparr>rand = [16382, 5, 16383, 1], listeners = [49157 \<mapsto> ''a'']\<rparr> ''b'' 65534) 49152 = None
   \<and> (49152 :: uint16) \<noteq> 65534"
proof -
  have r: "NextEmptyEphemeralPort
      (AddListener \<lparr>rand = [16382, 5, 16383, 1], listeners = [49157 \<mapsto> ''a'']\<rparr> ''b'' 65534)
     = Some (49152, \<lparr>rand = [1], listeners = [49157 \<mapsto> ''a'', 65534 \<mapsto> ''b'']\<rparr>)"
    by (simp add: AddListener_def NextEmptyEphemeralPort.simps randomEphemeralPort_def Intn_def
        Listener_def firstEphemeralPort_def lastEphemeralPort_def)
  from r
    ephemeral_port [where pm = "AddListener \<lparr>rand = [16382, 5, 16383, 1], listeners = [49157 \<mapsto> ''a'']\<rparr> ''b'' 65534"
       and port = 49152 and pm' = "\<lparr>rand = [1], listeners = [49157 \<mapsto> ''a'', 65534 \<mapsto> ''b'']\<rparr>"]
    ephemeral_port [where pm = "\<lparr>rand = [16382, 5, 16383, 1], listeners = [49157 \<mapsto> ''a'']\<rparr>"
       and l = "''b''" and p = 65534
       and port = 49152 and pm' = "\<lparr>rand = [1], listeners = [49157 \<mapsto> ''a'', 65534 \<mapsto> ''b'']\<rparr>"]
  show ?thesis by simp
qed


end
